theory Spec2Isabelle
  imports Main
begin

section \<open>Python values, strings and dictionaries\<close>

text \<open>
  The plugin configuration is a \<^verbatim>\<open>dict[str, dict[str, Any]]\<close>. The scalar values a
  configuration file can hold are modelled by \<open>pyval\<close>; floats, lists and nested tables
  as option values are outside the model. A Python \<^verbatim>\<open>str\<close> is a \<open>string\<close> whose
  characters are the code points below 256.
\<close>

datatype pyval = PNone | PBool bool | PInt int | PStr string

text \<open>\<^verbatim>\<open>bool(v)\<close>\<close>

fun truthy :: "pyval \<Rightarrow> bool" where
  "truthy PNone = False"
| "truthy (PBool b) = b"
| "truthy (PInt i) = (i \<noteq> 0)"
| "truthy (PStr s) = (s \<noteq> [])"

text \<open>Decimal digits of a natural number and of an integer, as \<^verbatim>\<open>str(int)\<close> prints them.\<close>

fun str_nat :: "nat \<Rightarrow> string" where
  "str_nat n = (if n < 10 then [''0123456789'' ! n]
                else str_nat (n div 10) @ [''0123456789'' ! (n mod 10)])"

declare str_nat.simps [simp del]

definition str_int :: "int \<Rightarrow> string" where
  "str_int i = (if i < 0 then CHR ''-'' # str_nat (nat (- i)) else str_nat (nat i))"

text \<open>\<^verbatim>\<open>str(v)\<close>, which is also what an f-string field \<^verbatim>\<open>{v}\<close> inserts.\<close>

fun py_str :: "pyval \<Rightarrow> string" where
  "py_str PNone = ''None''"
| "py_str (PBool b) = (if b then ''True'' else ''False'')"
| "py_str (PInt i) = str_int i"
| "py_str (PStr s) = s"

text \<open>
  \<^verbatim>\<open>str.isspace\<close> on one character, for the code points below 256: tab to carriage
  return, the four separators 28 to 31, space, NEL (133) and the no-break space (160).
\<close>

definition is_space :: "char \<Rightarrow> bool" where
  "is_space c = (let n = (of_char c :: nat) in
     (9 \<le> n \<and> n \<le> 13) \<or> (28 \<le> n \<and> n \<le> 32) \<or> n = 133 \<or> n = 160)"

text \<open>\<^verbatim>\<open>s.strip()\<close>\<close>

definition strip :: "string \<Rightarrow> string" where
  "strip s = rev (dropWhile is_space (rev (dropWhile is_space s)))"

text \<open>
  \<^verbatim>\<open>s.split(None, 1)\<close>: leading whitespace is skipped; an empty remainder gives the
  empty list; otherwise the first token, followed by the rest of the string (leading
  whitespace skipped, trailing kept) when that rest is not empty.
\<close>

definition split1 :: "string \<Rightarrow> string list" where
  "split1 s =
     (let s1 = dropWhile is_space s in
      if s1 = [] then []
      else (let tok = takeWhile (\<lambda>c. \<not> is_space c) s1;
                rest = dropWhile is_space (dropWhile (\<lambda>c. \<not> is_space c) s1)
            in if rest = [] then [tok] else [tok, rest]))"

text \<open>A dictionary with string keys is an association list; the first binding of a key counts.\<close>

type_synonym 'v dict = "(string \<times> 'v) list"

text \<open>\<^verbatim>\<open>d.get(k)\<close> and \<^verbatim>\<open>d.get(k, default)\<close>\<close>

definition dict_get :: "pyval dict \<Rightarrow> string \<Rightarrow> pyval" where
  "dict_get d k = (case map_of d k of None \<Rightarrow> PNone | Some v \<Rightarrow> v)"

definition dict_get_default :: "pyval dict \<Rightarrow> string \<Rightarrow> pyval \<Rightarrow> pyval" where
  "dict_get_default d k dflt = (case map_of d k of None \<Rightarrow> dflt | Some v \<Rightarrow> v)"


section \<open>The backend and the interaction trace\<close>

text \<open>
  A client as the compositor reports it: the keys \<^verbatim>\<open>address\<close>, \<^verbatim>\<open>class\<close>,
  \<^verbatim>\<open>title\<close>, \<^verbatim>\<open>workspace.name\<close> and \<^verbatim>\<open>floating\<close> of the client dictionary.
\<close>

record client =
  c_address :: string
  c_class :: string
  c_title :: string
  c_workspace_name :: string
  c_floating :: bool

text \<open>
  Every interaction of a plugin with the outside is an event: a client-list query
  (\<^verbatim>\<open>get_clients\<close>), a command (\<^verbatim>\<open>backend.execute\<close>), a structured query
  (\<^verbatim>\<open>backend.execute_json\<close>) and the settle delay (\<^verbatim>\<open>asyncio.sleep(0.5)\<close>).
\<close>

datatype event = GetClients | Execute string | ExecuteJson string | Sleep

text \<open>
  The backend is not part of the repository. It is a parameter: what it answers to a
  query may depend on everything that happened before, so a reply is a function of the
  trace so far. This covers a window list that changes between two queries, whether by
  itself or in reaction to a command.
\<close>

record backend =
  clients_reply :: "event list \<Rightarrow> client list"
  activeworkspace_id :: "event list \<Rightarrow> int"

text \<open>
  The state threaded through the plugin: the trace of events, and a counter of the
  entries into the lifecycle decision, which the code does not have and which only
  observes it.
\<close>

record state =
  trace :: "event list"
  passes :: nat

definition get_clients :: "backend \<Rightarrow> state \<Rightarrow> client list \<times> state" where
  "get_clients be st = (clients_reply be (trace st), st\<lparr>trace := trace st @ [GetClients]\<rparr>)"

definition execute :: "string \<Rightarrow> state \<Rightarrow> state" where
  "execute cmd st = st\<lparr>trace := trace st @ [Execute cmd]\<rparr>"

text \<open>\<^verbatim>\<open>execute_json("activeworkspace")["id"]\<close>\<close>

definition execute_json_activeworkspace :: "backend \<Rightarrow> state \<Rightarrow> int \<times> state" where
  "execute_json_activeworkspace be st =
     (activeworkspace_id be (trace st), st\<lparr>trace := trace st @ [ExecuteJson ''activeworkspace'']\<rparr>)"

definition sleep :: "state \<Rightarrow> state" where
  "sleep st = st\<lparr>trace := trace st @ [Sleep]\<rparr>"

text \<open>The commands of a trace, in order, and the number of its client-list queries.\<close>

fun commands :: "event list \<Rightarrow> string list" where
  "commands [] = []"
| "commands (Execute s # es) = s # commands es"
| "commands (e # es) = commands es"

definition client_queries :: "event list \<Rightarrow> nat" where
  "client_queries es = length (filter (\<lambda>e. e = GetClients) es)"

text \<open>The events a run added to the trace.\<close>

definition emitted :: "state \<Rightarrow> state \<Rightarrow> event list" where
  "emitted st st' = drop (length (trace st)) (trace st')"


section \<open>hdrop: the scratchpad controller\<close>

record HdropOptions =
  command :: pyval
  focus :: bool
  floating :: bool
  height :: pyval
  width :: pyval
  center :: bool
  skip :: bool
  launch_on_missing :: bool

text \<open>The two predicates over a client list, and the helpers that query and apply them.\<close>

definition window_exists :: "client list \<Rightarrow> pyval \<Rightarrow> bool" where
  "window_exists cs class_name = list_ex (\<lambda>c. PStr (c_class c) = class_name) cs"

definition window_in_hdrop :: "client list \<Rightarrow> pyval \<Rightarrow> bool" where
  "window_in_hdrop cs class_name =
     list_ex (\<lambda>c. PStr (c_class c) = class_name \<and> c_workspace_name c = ''special:hdrop'') cs"

definition is_window_exists :: "backend \<Rightarrow> pyval \<Rightarrow> state \<Rightarrow> bool \<times> state" where
  "is_window_exists be class_name st =
     (let (clients, st1) = get_clients be st in (window_exists clients class_name, st1))"

definition is_window_in_hdrop :: "backend \<Rightarrow> pyval \<Rightarrow> state \<Rightarrow> bool \<times> state" where
  "is_window_in_hdrop be class_name st =
     (let (clients, st1) = get_clients be st in (window_in_hdrop clients class_name, st1))"

definition move_window_to_hdrop :: "pyval \<Rightarrow> state \<Rightarrow> state" where
  "move_window_to_hdrop class_name st =
     execute (''movetoworkspacesilent special:hdrop,class:'' @ py_str class_name) st"

definition move_window_to_active_workspace :: "backend \<Rightarrow> pyval \<Rightarrow> state \<Rightarrow> state" where
  "move_window_to_active_workspace be class_name st =
     (let (workspace_id, st1) = execute_json_activeworkspace be st in
      execute (''movetoworkspace '' @ str_int workspace_id @ '',class:'' @ py_str class_name) st1)"

text \<open>The loop of \<^verbatim>\<open>_configure_floating_window\<close> over the target clients.\<close>

fun toggle_each :: "client list \<Rightarrow> state \<Rightarrow> state" where
  "toggle_each [] st = st"
| "toggle_each (c # cs) st =
     toggle_each cs
       (if \<not> c_floating c then execute (''togglefloating address:'' @ c_address c) st else st)"

definition configure_floating_window ::
  "backend \<Rightarrow> pyval \<Rightarrow> pyval \<Rightarrow> pyval \<Rightarrow> bool \<Rightarrow> state \<Rightarrow> state" where
  "configure_floating_window be class_name h w center_flag st =
     (let (clients, st1) = get_clients be st;
          target_clients =
            filter (\<lambda>c. PStr (c_class c) = class_name \<and> c_workspace_name c \<noteq> ''special:hdrop'')
              clients;
          st2 = (if target_clients \<noteq> [] then toggle_each target_clients st1
                 else execute (''togglefloating class:'' @ py_str class_name) st1);
          st3 = (if h \<noteq> PNone \<and> w \<noteq> PNone
                 then execute (''resizewindowpixel exact '' @ py_str w @ '' '' @ py_str h
                               @ '',class:'' @ py_str class_name) st2
                 else st2)
      in if center_flag then execute (''centerwindow class:'' @ py_str class_name) st3 else st3)"

text \<open>
  The second half of \<^verbatim>\<open>_handle_window\<close> (``Window exists: act according to flags''),
  which both the first pass and the retry reach.
\<close>

definition act_on_window :: "backend \<Rightarrow> pyval \<Rightarrow> HdropOptions \<Rightarrow> state \<Rightarrow> state" where
  "act_on_window be class_name opts st =
     (let (ex, st1) = is_window_exists be class_name st in
      if ex then
        (let (in_hdrop, st2) = is_window_in_hdrop be class_name st1 in
         if in_hdrop then
           (let st3 = move_window_to_active_workspace be class_name st2 in
            if floating opts
            then configure_floating_window be class_name (height opts) (width opts) (center opts) st3
            else st3)
         else if focus opts then execute (''focuswindow class:'' @ py_str class_name) st2
         else move_window_to_hdrop class_name st2)
      else st1)"

text \<open>
  \<^verbatim>\<open>_handle_window\<close>. The guard of the launch branch is a short-circuit conjunction:
  the client list is queried only when \<open>skip\<close> is false and a command is configured,
  and \<open>launch_on_missing\<close> is read last.
\<close>

function handle_window :: "backend \<Rightarrow> pyval \<Rightarrow> HdropOptions \<Rightarrow> state \<Rightarrow> state" where
  "handle_window be class_name opts st0 =
     (let st = st0\<lparr>passes := Suc (passes st0)\<rparr> in
      if \<not> skip opts \<and> command opts \<noteq> PNone then
        (case is_window_exists be class_name st of
           (ex, st1) \<Rightarrow>
             if \<not> ex \<and> launch_on_missing opts then
               (let st2 = execute (''exec '' @ py_str (command opts)) st1;
                    st3 = sleep st2;
                    new_opts = \<lparr>command = command opts, focus = focus opts,
                                floating = floating opts, height = height opts,
                                width = width opts, center = center opts, skip = True,
                                launch_on_missing = launch_on_missing opts\<rparr>
                in handle_window be class_name new_opts st3)
             else act_on_window be class_name opts st1)
      else act_on_window be class_name opts st)"
  by pat_completeness auto
termination
  by (relation "measure (\<lambda>(be, class_name, opts, st). if skip opts then 0 else 1)") auto

declare handle_window.simps [simp del]

text \<open>The configuration mapping \<^verbatim>\<open>self.apps\<close> and \<^verbatim>\<open>_get_app_config\<close>.\<close>

definition get_app_config :: "pyval dict dict \<Rightarrow> string \<Rightarrow> pyval dict" where
  "get_app_config apps app_name = (case map_of apps app_name of None \<Rightarrow> [] | Some c \<Rightarrow> c)"

text \<open>The entry points return \<open>Some\<close> error string, or \<open>None\<close>.\<close>

definition run_app :: "pyval dict dict \<Rightarrow> backend \<Rightarrow> string \<Rightarrow> state \<Rightarrow> string option \<times> state" where
  "run_app apps be app_name st =
     (let app_conf = get_app_config apps app_name in
      if app_conf = [] then
        (Some (''Error: app '' @ [CHR 0x27] @ app_name @ [CHR 0x27] @ '' not configured''), st)
      else
        (let class_name = dict_get_default app_conf ''class'' (PStr app_name);
             opts = \<lparr>command = dict_get app_conf ''command'',
                     focus = truthy (dict_get_default app_conf ''focus'' (PBool False)),
                     floating = truthy (dict_get_default app_conf ''floating'' (PBool False)),
                     height = dict_get app_conf ''height'',
                     width = dict_get app_conf ''width'',
                     center = truthy (dict_get_default app_conf ''center'' (PBool False)),
                     skip = False,
                     launch_on_missing =
                       truthy (dict_get_default app_conf ''launch_on_missing'' (PBool False))\<rparr>
         in (None, handle_window be class_name opts st)))"

definition run_hdrop :: "pyval dict dict \<Rightarrow> backend \<Rightarrow> string \<Rightarrow> state \<Rightarrow> string option \<times> state" where
  "run_hdrop apps be args st =
     (let app_name = (if args \<noteq> [] \<and> strip args \<noteq> [] then hd (split1 (strip args)) else [])
      in if app_name = [] then (Some ''Error: app name required (defined under hdrop.apps)'', st)
         else run_app apps be app_name st)"

definition run_toggle :: "pyval dict dict \<Rightarrow> backend \<Rightarrow> string \<Rightarrow> state \<Rightarrow> string option \<times> state" where
  "run_toggle apps be args st =
     (case split1 args of
        [] \<Rightarrow> (Some ''Error: CLASS name required'', st)
      | class_name # _ \<Rightarrow>
          (let app_conf = get_app_config apps class_name;
               opts = \<lparr>command = dict_get app_conf ''command'',
                       focus = truthy (dict_get_default app_conf ''focus'' (PBool False)),
                       floating = truthy (dict_get_default app_conf ''floating'' (PBool False)),
                       height = dict_get app_conf ''height'',
                       width = dict_get app_conf ''width'',
                       center = truthy (dict_get_default app_conf ''center'' (PBool False)),
                       skip = False,
                       launch_on_missing =
                         truthy (dict_get_default app_conf ''launch_on_missing'' (PBool False))\<rparr>
           in (None, handle_window be (PStr class_name) opts st)))"

definition run_focus :: "backend \<Rightarrow> string \<Rightarrow> state \<Rightarrow> string option \<times> state" where
  "run_focus be args st =
     (let class_name = strip args in
      if class_name = [] then (Some ''Error: CLASS name required'', st)
      else
        (let (in_hdrop, st1) = is_window_in_hdrop be (PStr class_name) st in
         if in_hdrop then (None, move_window_to_active_workspace be (PStr class_name) st1)
         else (None, execute (''focuswindow class:'' @ class_name) st1)))"

definition run_show :: "pyval dict dict \<Rightarrow> backend \<Rightarrow> string \<Rightarrow> state \<Rightarrow> string option \<times> state" where
  "run_show apps be args st =
     (case split1 args of
        [] \<Rightarrow> (Some ''Error: CLASS name required'', st)
      | class_name # _ \<Rightarrow>
          (let app_conf = get_app_config apps class_name;
               opts = \<lparr>command = dict_get app_conf ''command'',
                       focus = True,
                       floating = truthy (dict_get_default app_conf ''floating'' (PBool False)),
                       height = dict_get app_conf ''height'',
                       width = dict_get app_conf ''width'',
                       center = truthy (dict_get_default app_conf ''center'' (PBool False)),
                       skip = False,
                       launch_on_missing =
                         truthy (dict_get_default app_conf ''launch_on_missing'' (PBool False))\<rparr>
           in (None, handle_window be (PStr class_name) opts st)))"

definition run_hide :: "backend \<Rightarrow> string \<Rightarrow> state \<Rightarrow> string option \<times> state" where
  "run_hide be args st =
     (let class_name = strip args in
      if class_name = [] then (Some ''Error: CLASS name required'', st)
      else
        (let (ex, st1) = is_window_exists be (PStr class_name) st in
         if ex then (None, move_window_to_hdrop (PStr class_name) st1) else (None, st1)))"


section \<open>fcitx5_switcher: the input-method switcher\<close>

text \<open>
  The four pattern lists that \<^verbatim>\<open>get_config_list\<close> returns. The regular-expression
  engine is a parameter \<open>re_search pattern value\<close>: \<open>Some True\<close> for a match,
  \<open>Some False\<close> for none, \<open>None\<close> when \<^verbatim>\<open>re.error\<close> is raised.
\<close>

record switcher_config =
  active_classes :: "pyval list"
  active_titles :: "pyval list"
  inactive_classes :: "pyval list"
  inactive_titles :: "pyval list"

type_synonym regex_engine = "string \<Rightarrow> string \<Rightarrow> bool option"

fun matches_any :: "regex_engine \<Rightarrow> string \<Rightarrow> pyval list \<Rightarrow> bool" where
  "matches_any re_search v [] = False"
| "matches_any re_search v (p # ps) =
     (case re_search (py_str p) v of
        Some found \<Rightarrow> if found then True else matches_any re_search v ps
      | None \<Rightarrow> if v = py_str p then True else matches_any re_search v ps)"

definition should_enable :: "regex_engine \<Rightarrow> switcher_config \<Rightarrow> client \<Rightarrow> bool" where
  "should_enable re_search cfg c =
     (matches_any re_search (c_class c) (active_classes cfg)
      \<or> matches_any re_search (c_title c) (active_titles cfg))"

definition should_disable :: "regex_engine \<Rightarrow> switcher_config \<Rightarrow> client \<Rightarrow> bool" where
  "should_disable re_search cfg c =
     (matches_any re_search (c_class c) (inactive_classes cfg)
      \<or> matches_any re_search (c_title c) (inactive_titles cfg))"

text \<open>
  The loop over the clients. A client's class and title are strings here, so
  \<^verbatim>\<open>client.get("class") or ""\<close> is the class itself.
\<close>

fun switch_clients :: "regex_engine \<Rightarrow> switcher_config \<Rightarrow> string \<Rightarrow> client list \<Rightarrow> state \<Rightarrow> state" where
  "switch_clients re_search cfg addr [] st = st"
| "switch_clients re_search cfg addr (c # cs) st =
     switch_clients re_search cfg addr cs
       (if c_address c = addr then
          (let st1 = (if should_enable re_search cfg c
                      then execute ''execr fcitx5-remote -o'' st else st)
           in if should_disable re_search cfg c
              then execute ''execr fcitx5-remote -c'' st1 else st1)
        else st)"

definition event_activewindowv2 ::
  "regex_engine \<Rightarrow> switcher_config \<Rightarrow> backend \<Rightarrow> string \<Rightarrow> state \<Rightarrow> state" where
  "event_activewindowv2 re_search cfg be addr st =
     (let addr' = ''0x'' @ addr;
          (clients, st1) = get_clients be st
      in switch_clients re_search cfg addr' clients st1)"

section \<open>Notions used to state the properties\<close>

text \<open>A command that starts a process: \<^verbatim>\<open>exec <command>\<close>.\<close>

definition is_exec_command :: "event \<Rightarrow> bool" where
  "is_exec_command e = (case e of Execute s \<Rightarrow> take 5 s = ''exec '' | _ \<Rightarrow> False)"

text \<open>
  The floating toggles the normalizer issues on a client list: one per client of the
  class outside the scratchpad that is not floating, or the class-wide toggle when the
  list has no client of the class outside the scratchpad. Then the whole command
  sequence of the normalizer.
\<close>

definition toggle_commands :: "client list \<Rightarrow> pyval \<Rightarrow> string list" where
  "toggle_commands cs class_name =
     (let targets =
            filter (\<lambda>c. PStr (c_class c) = class_name \<and> c_workspace_name c \<noteq> ''special:hdrop'') cs
      in if targets = [] then [''togglefloating class:'' @ py_str class_name]
         else map (\<lambda>c. ''togglefloating address:'' @ c_address c)
                (filter (\<lambda>c. \<not> c_floating c) targets))"

definition normalizer_commands ::
  "client list \<Rightarrow> pyval \<Rightarrow> pyval \<Rightarrow> pyval \<Rightarrow> bool \<Rightarrow> string list" where
  "normalizer_commands cs class_name h w center_flag =
     toggle_commands cs class_name
     @ (if h \<noteq> PNone \<and> w \<noteq> PNone
        then [''resizewindowpixel exact '' @ py_str w @ '' '' @ py_str h
              @ '',class:'' @ py_str class_name]
        else [])
     @ (if center_flag then [''centerwindow class:'' @ py_str class_name] else [])"

text \<open>
  The guard of the launch branch of \<^verbatim>\<open>_handle_window\<close>, read on the client list
  the backend returns at the current trace, and the events of the first half of
  \<^verbatim>\<open>_handle_window\<close>, before the window is acted on.
\<close>

definition launches :: "backend \<Rightarrow> pyval \<Rightarrow> HdropOptions \<Rightarrow> state \<Rightarrow> bool" where
  "launches be class_name opts st =
     (\<not> skip opts \<and> command opts \<noteq> PNone
      \<and> \<not> window_exists (clients_reply be (trace st)) class_name \<and> launch_on_missing opts)"

definition first_half :: "backend \<Rightarrow> pyval \<Rightarrow> HdropOptions \<Rightarrow> state \<Rightarrow> event list" where
  "first_half be class_name opts st =
     (if launches be class_name opts st
      then [GetClients, Execute (''exec '' @ py_str (command opts)), Sleep]
      else if \<not> skip opts \<and> command opts \<noteq> PNone then [GetClients] else [])"

text \<open>What the switcher issues for one client: the enable command, then the disable command.\<close>

definition switch_commands :: "regex_engine \<Rightarrow> switcher_config \<Rightarrow> client \<Rightarrow> event list" where
  "switch_commands re_search cfg c =
     (if should_enable re_search cfg c then [Execute ''execr fcitx5-remote -o''] else [])
     @ (if should_disable re_search cfg c then [Execute ''execr fcitx5-remote -c''] else [])"


section \<open>Concrete backends and options\<close>

text \<open>
  The inputs of the scenarios: the empty initial state; a window of class \<^verbatim>\<open>foo\<close>;
  a backend that shows the window in workspace 3 once it has been moved there, one that
  keeps showing it, floating, in the scratchpad, one with no window at all, and one whose
  only window is gone after the first query.
\<close>

definition start :: state where
  "start = \<lparr>trace = [], passes = 0\<rparr>"

definition foo_window :: "string \<Rightarrow> bool \<Rightarrow> client" where
  "foo_window workspace is_floating =
     \<lparr>c_address = ''0xa1'', c_class = ''foo'', c_title = ''t'',
      c_workspace_name = workspace, c_floating = is_floating\<rparr>"

definition scenario_c_options :: HdropOptions where
  "scenario_c_options =
     \<lparr>command = PNone, focus = False, floating = True, height = PInt 400, width = PInt 600,
      center = True, skip = False, launch_on_missing = False\<rparr>"

definition plain_options :: HdropOptions where
  "plain_options =
     \<lparr>command = PNone, focus = False, floating = False, height = PNone, width = PNone,
      center = False, skip = True, launch_on_missing = False\<rparr>"

definition launch_options :: HdropOptions where
  "launch_options =
     \<lparr>command = PStr ''foo'', focus = False, floating = True, height = PNone, width = PNone,
      center = False, skip = False, launch_on_missing = True\<rparr>"

definition moving_backend :: backend where
  "moving_backend =
     \<lparr>clients_reply = (\<lambda>tr. if Execute ''movetoworkspace 3,class:foo'' \<in> set tr
                            then [foo_window ''3'' False]
                            else [foo_window ''special:hdrop'' False]),
      activeworkspace_id = (\<lambda>tr. 3)\<rparr>"

definition lagging_backend :: backend where
  "lagging_backend =
     \<lparr>clients_reply = (\<lambda>tr. [foo_window ''special:hdrop'' True]),
      activeworkspace_id = (\<lambda>tr. 3)\<rparr>"

definition empty_backend :: backend where
  "empty_backend = \<lparr>clients_reply = (\<lambda>tr. []), activeworkspace_id = (\<lambda>tr. 1)\<rparr>"

definition closing_backend :: backend where
  "closing_backend =
     \<lparr>clients_reply = (\<lambda>tr. if tr = [] then [foo_window ''special:hdrop'' False] else []),
      activeworkspace_id = (\<lambda>tr. 1)\<rparr>"


section \<open>Basic facts about traces\<close>

lemma commands_append: "commands (xs @ ys) = commands xs @ commands ys"
  by (induction xs rule: commands.induct) simp_all

lemma commands_map_Execute: "commands (map Execute cmds) = cmds"
  by (induction cmds) simp_all

lemma emitted_append: "trace st' = trace st @ es \<Longrightarrow> emitted st st' = es"
  by (simp add: emitted_def)

lemma client_queries_append:
  "client_queries (xs @ ys) = client_queries xs + client_queries ys"
  by (simp add: client_queries_def)

lemma client_queries_map_Execute: "client_queries (map Execute cmds) = 0"
  by (induction cmds) (simp_all add: client_queries_def)

lemma no_exec_map_Execute:
  "\<forall>c \<in> set cmds. take 5 c \<noteq> ''exec '' \<Longrightarrow> filter is_exec_command (map Execute cmds) = []"
  by (induction cmds) (simp_all add: is_exec_command_def)

lemma toggle_each_trace:
  "trace (toggle_each cs st) =
     trace st @ map (\<lambda>c. Execute (''togglefloating address:'' @ c_address c))
                  (filter (\<lambda>c. \<not> c_floating c) cs)"
  by (induction cs arbitrary: st) (simp_all add: execute_def)

lemma toggle_each_passes: "passes (toggle_each cs st) = passes st"
  by (induction cs arbitrary: st) (simp_all add: execute_def)

lemma configure_floating_window_trace:
  "trace (configure_floating_window be class_name h w center_flag st) =
     trace st @ GetClients #
       map Execute (normalizer_commands (clients_reply be (trace st)) class_name h w center_flag)"
  by (simp add: configure_floating_window_def get_clients_def execute_def toggle_each_trace
      normalizer_commands_def toggle_commands_def Let_def comp_def)

lemma configure_floating_window_passes:
  "passes (configure_floating_window be class_name h w center_flag st) = passes st"
  by (simp add: configure_floating_window_def get_clients_def execute_def toggle_each_passes
      Let_def)

lemma normalizer_commands_no_exec:
  "\<forall>c \<in> set (normalizer_commands cs class_name h w center_flag). take 5 c \<noteq> ''exec ''"
  by (auto simp: normalizer_commands_def toggle_commands_def Let_def)

text \<open>act_on_window, case by case\<close>

lemma act_on_window_absent:
  assumes "\<not> window_exists (clients_reply be (trace st)) class_name"
  shows "act_on_window be class_name opts st = st\<lparr>trace := trace st @ [GetClients]\<rparr>"
  using assms by (simp add: act_on_window_def is_window_exists_def get_clients_def)

lemma act_on_window_outside:
  assumes "window_exists (clients_reply be (trace st)) class_name"
    and "\<not> window_in_hdrop (clients_reply be (trace st @ [GetClients])) class_name"
  shows "act_on_window be class_name opts st =
     st\<lparr>trace := trace st @ [GetClients, GetClients,
           Execute (if focus opts then ''focuswindow class:'' @ py_str class_name
                    else ''movetoworkspacesilent special:hdrop,class:'' @ py_str class_name)]\<rparr>"
  using assms
  by (simp add: act_on_window_def is_window_exists_def is_window_in_hdrop_def get_clients_def
      execute_def move_window_to_hdrop_def)

lemma act_on_window_restore_trace:
  assumes "window_exists (clients_reply be (trace st)) class_name"
    and "window_in_hdrop (clients_reply be (trace st @ [GetClients])) class_name"
  shows "trace (act_on_window be class_name opts st) =
     (let tr = trace st @ [GetClients, GetClients];
          mv = ''movetoworkspace '' @ str_int (activeworkspace_id be tr) @ '',class:''
               @ py_str class_name;
          tr' = tr @ [ExecuteJson ''activeworkspace'', Execute mv]
      in tr' @ (if floating opts
                then GetClients # map Execute (normalizer_commands (clients_reply be tr')
                       class_name (height opts) (width opts) (center opts))
                else []))"
  using assms
  by (simp add: act_on_window_def is_window_exists_def is_window_in_hdrop_def get_clients_def
      execute_def move_window_to_active_workspace_def execute_json_activeworkspace_def
      configure_floating_window_trace Let_def)

lemma act_on_window_passes: "passes (act_on_window be class_name opts st) = passes st"
  by (simp add: act_on_window_def is_window_exists_def is_window_in_hdrop_def get_clients_def
      execute_def move_window_to_active_workspace_def execute_json_activeworkspace_def
      move_window_to_hdrop_def configure_floating_window_passes Let_def)

text \<open>What one run of the second half adds to the trace: between one and three queries, no exec.\<close>

lemma act_on_window_emits:
  "\<exists>es. trace (act_on_window be class_name opts st) = trace st @ es
        \<and> filter is_exec_command es = []
        \<and> 1 \<le> client_queries es \<and> client_queries es \<le> 3"
proof (cases "window_exists (clients_reply be (trace st)) class_name")
  case False
  then show ?thesis
    by (simp add: act_on_window_absent is_exec_command_def client_queries_def)
next
  case ex: True
  show ?thesis
  proof (cases "window_in_hdrop (clients_reply be (trace st @ [GetClients])) class_name")
    case False
    with ex show ?thesis
      by (simp add: act_on_window_outside is_exec_command_def client_queries_def)
  next
    case True
    with ex show ?thesis
      by (simp add: act_on_window_restore_trace Let_def is_exec_command_def
          client_queries_def no_exec_map_Execute [unfolded is_exec_command_def]
          normalizer_commands_no_exec
          client_queries_map_Execute [unfolded client_queries_def])
  qed
qed

text \<open>handle_window: the two ways through the first half\<close>

lemma handle_window_skip:
  "skip opts \<Longrightarrow>
   handle_window be class_name opts st =
     act_on_window be class_name opts (st\<lparr>passes := Suc (passes st)\<rparr>)"
  by (simp add: handle_window.simps)

lemma handle_window_no_command:
  "command opts = PNone \<Longrightarrow>
   handle_window be class_name opts st =
     act_on_window be class_name opts (st\<lparr>passes := Suc (passes st)\<rparr>)"
  by (simp add: handle_window.simps)

lemma handle_window_guarded:
  assumes "\<not> skip opts" and "command opts \<noteq> PNone" and "\<not> launches be class_name opts st"
  shows "handle_window be class_name opts st =
     act_on_window be class_name opts
       (st\<lparr>passes := Suc (passes st), trace := trace st @ [GetClients]\<rparr>)"
  using assms
  by (auto simp: handle_window.simps [of be class_name opts st] launches_def
      is_window_exists_def get_clients_def)

lemma handle_window_launch:
  assumes "launches be class_name opts st"
  shows "handle_window be class_name opts st =
     act_on_window be class_name (opts\<lparr>skip := True\<rparr>)
       (st\<lparr>trace := trace st @ [GetClients, Execute (''exec '' @ py_str (command opts)), Sleep],
           passes := Suc (Suc (passes st))\<rparr>)"
  using assms
  by (cases opts)
    (simp add: handle_window.simps launches_def
      is_window_exists_def get_clients_def execute_def sleep_def)

lemma handle_window_emits:
  "\<exists>es. trace (handle_window be class_name opts st)
           = trace st @ first_half be class_name opts st @ es
        \<and> filter is_exec_command es = []
        \<and> 1 \<le> client_queries es \<and> client_queries es \<le> 3"
proof (cases "launches be class_name opts st")
  case True
  then show ?thesis
    using act_on_window_emits [of be class_name "opts\<lparr>skip := True\<rparr>"
        "st\<lparr>trace := trace st @ [GetClients, Execute (''exec '' @ py_str (command opts)), Sleep],
            passes := Suc (Suc (passes st))\<rparr>"]
    by (simp add: handle_window_launch first_half_def)
next
  case no_launch: False
  show ?thesis
  proof (cases "\<not> skip opts \<and> command opts \<noteq> PNone")
    case True
    with no_launch show ?thesis
      using act_on_window_emits [of be class_name opts
          "st\<lparr>passes := Suc (passes st), trace := trace st @ [GetClients]\<rparr>"]
      by (simp add: handle_window_guarded first_half_def)
  next
    case False
    then have "handle_window be class_name opts st =
        act_on_window be class_name opts (st\<lparr>passes := Suc (passes st)\<rparr>)"
      using handle_window_skip handle_window_no_command by blast
    moreover have "first_half be class_name opts st = []"
      using no_launch False by (auto simp: first_half_def)
    ultimately show ?thesis
      using act_on_window_emits [of be class_name opts "st\<lparr>passes := Suc (passes st)\<rparr>"]
      by simp
  qed
qed

lemma handle_window_passes:
  "passes (handle_window be class_name opts st) =
     passes st + (if launches be class_name opts st then 2 else 1)"
proof (cases "launches be class_name opts st")
  case True
  then show ?thesis by (simp add: handle_window_launch act_on_window_passes)
next
  case no_launch: False
  show ?thesis
  proof (cases "\<not> skip opts \<and> command opts \<noteq> PNone")
    case True
    with no_launch show ?thesis by (simp add: handle_window_guarded act_on_window_passes)
  next
    case False
    then have "handle_window be class_name opts st =
        act_on_window be class_name opts (st\<lparr>passes := Suc (passes st)\<rparr>)"
      using handle_window_skip handle_window_no_command by blast
    with no_launch show ?thesis by (simp add: act_on_window_passes)
  qed
qed


section \<open>Facts about the geometry normalizer\<close>

lemma toggle_commands_prefix:
  "\<forall>t \<in> set (toggle_commands cs class_name). take 15 t = ''togglefloating ''"
  by (auto simp: toggle_commands_def Let_def)

lemma configure_floating_window_commands:
  "commands (emitted st (configure_floating_window be class_name h w center_flag st)) =
     normalizer_commands (clients_reply be (trace st)) class_name h w center_flag"
proof -
  have "emitted st (configure_floating_window be class_name h w center_flag st) =
      GetClients # map Execute
        (normalizer_commands (clients_reply be (trace st)) class_name h w center_flag)"
    by (rule emitted_append) (simp add: configure_floating_window_trace)
  then show ?thesis by (simp add: commands_map_Execute)
qed

lemma address_toggle_iff:
  "(''togglefloating address:'' @ a) \<in> set (toggle_commands cs class_name) \<longleftrightarrow>
     (\<exists>c \<in> set cs. PStr (c_class c) = class_name \<and> c_workspace_name c \<noteq> ''special:hdrop''
         \<and> \<not> c_floating c \<and> c_address c = a)"
proof (cases "filter (\<lambda>c. PStr (c_class c) = class_name
                 \<and> c_workspace_name c \<noteq> ''special:hdrop'') cs = []")
  case True
  then have "toggle_commands cs class_name = [''togglefloating class:'' @ py_str class_name]"
    by (simp add: toggle_commands_def)
  moreover from True have "\<not> (\<exists>c \<in> set cs. PStr (c_class c) = class_name
      \<and> c_workspace_name c \<noteq> ''special:hdrop'')"
    by (simp add: filter_empty_conv)
  ultimately show ?thesis by auto
next
  case False
  then have "toggle_commands cs class_name =
      map (\<lambda>c. ''togglefloating address:'' @ c_address c)
        (filter (\<lambda>c. \<not> c_floating c)
          (filter (\<lambda>c. PStr (c_class c) = class_name
             \<and> c_workspace_name c \<noteq> ''special:hdrop'') cs))"
    by (simp add: toggle_commands_def)
  then show ?thesis by auto
qed

lemma class_toggle_iff:
  "(''togglefloating class:'' @ py_str class_name) \<in> set (toggle_commands cs class_name) \<longleftrightarrow>
     \<not> (\<exists>c \<in> set cs. PStr (c_class c) = class_name \<and> c_workspace_name c \<noteq> ''special:hdrop'')"
proof (cases "filter (\<lambda>c. PStr (c_class c) = class_name
                 \<and> c_workspace_name c \<noteq> ''special:hdrop'') cs = []")
  case True
  then have "toggle_commands cs class_name = [''togglefloating class:'' @ py_str class_name]"
    by (simp add: toggle_commands_def)
  moreover from True have "\<not> (\<exists>c \<in> set cs. PStr (c_class c) = class_name
      \<and> c_workspace_name c \<noteq> ''special:hdrop'')"
    by (simp add: filter_empty_conv)
  ultimately show ?thesis by simp
next
  case False
  then have "toggle_commands cs class_name =
      map (\<lambda>c. ''togglefloating address:'' @ c_address c)
        (filter (\<lambda>c. \<not> c_floating c)
          (filter (\<lambda>c. PStr (c_class c) = class_name
             \<and> c_workspace_name c \<noteq> ''special:hdrop'') cs))"
    by (simp add: toggle_commands_def)
  moreover from False have "\<exists>c \<in> set cs. PStr (c_class c) = class_name
      \<and> c_workspace_name c \<noteq> ''special:hdrop''"
    by (simp add: filter_empty_conv)
  ultimately show ?thesis by auto
qed

lemma set_normalizer_commands:
  "set (normalizer_commands cs class_name h w center_flag) =
     set (toggle_commands cs class_name)
     \<union> (if h \<noteq> PNone \<and> w \<noteq> PNone
        then {''resizewindowpixel exact '' @ py_str w @ '' '' @ py_str h
              @ '',class:'' @ py_str class_name} else {})
     \<union> (if center_flag then {''centerwindow class:'' @ py_str class_name} else {})"
  by (simp add: normalizer_commands_def)

lemma not_toggle:
  "take 15 t \<noteq> ''togglefloating '' \<Longrightarrow> t \<notin> set (toggle_commands cs class_name)"
  using toggle_commands_prefix by blast


section \<open>Facts about strip and split\<close>

lemma dropWhile_all_space: "list_all is_space s \<Longrightarrow> dropWhile is_space s = []"
  by (simp add: list_all_iff)

lemma strip_all_space: "list_all is_space s \<Longrightarrow> strip s = []"
  by (simp add: strip_def dropWhile_all_space)

lemma split1_all_space: "list_all is_space s \<Longrightarrow> split1 s = []"
  by (simp add: split1_def dropWhile_all_space)

lemma strip_prefix: "\<exists>r. dropWhile is_space s = strip s @ r"
proof -
  let ?t = "dropWhile is_space s"
  have "strip s @ rev (takeWhile is_space (rev ?t))
      = rev (takeWhile is_space (rev ?t) @ dropWhile is_space (rev ?t))"
    by (simp only: strip_def rev_append)
  also have "\<dots> = ?t"
    by (simp only: takeWhile_dropWhile_id rev_rev_ident)
  finally show ?thesis by metis
qed

lemma strip_starts_with_token:
  assumes "strip s \<noteq> []"
  shows "\<not> is_space (hd (strip s))"
proof -
  obtain r where r: "dropWhile is_space s = strip s @ r"
    using strip_prefix by blast
  with assms have ne: "dropWhile is_space s \<noteq> []" by auto
  have "hd (strip s) = hd (dropWhile is_space s)"
    using r assms by simp
  with hd_dropWhile [OF ne] show ?thesis by simp
qed

lemma split1_token:
  assumes x: "\<not> is_space x"
  shows "split1 (x # xs) \<noteq> [] \<and> hd (split1 (x # xs)) \<noteq> []"
proof -
  have d: "dropWhile is_space (x # xs) = x # xs"
    using x by simp
  have t: "takeWhile (\<lambda>c. \<not> is_space c) (x # xs) = x # takeWhile (\<lambda>c. \<not> is_space c) xs"
    using x by simp
  define r where "r = dropWhile is_space (dropWhile (\<lambda>c. \<not> is_space c) (x # xs))"
  have "split1 (x # xs) = (if r = [] then [x # takeWhile (\<lambda>c. \<not> is_space c) xs]
                           else [x # takeWhile (\<lambda>c. \<not> is_space c) xs, r])"
    unfolding split1_def Let_def d t r_def by (simp only: list.simps if_False)
  then show ?thesis by (cases "r = []") simp_all
qed

lemma split1_strip_token:
  assumes "strip s \<noteq> []"
  shows "split1 (strip s) \<noteq> [] \<and> hd (split1 (strip s)) \<noteq> []"
proof -
  from assms obtain x xs where cons: "strip s = x # xs"
    by (cases "strip s") auto
  with strip_starts_with_token [OF assms] have x: "\<not> is_space x" by simp
  from split1_token [OF x, of xs] show ?thesis unfolding cons .
qed


section \<open>Facts about the switcher loop\<close>

lemma switch_clients_trace:
  "trace (switch_clients re_search cfg addr cs st) =
     trace st @ concat (map (switch_commands re_search cfg)
                         (filter (\<lambda>c. c_address c = addr) cs))"
  by (induction cs arbitrary: st) (simp_all add: switch_commands_def execute_def Let_def)

lemma switch_clients_passes: "passes (switch_clients re_search cfg addr cs st) = passes st"
  by (induction cs arbitrary: st) (simp_all add: execute_def Let_def)

lemma filter_unique_address:
  assumes "distinct (map c_address cs)" and "c \<in> set cs"
  shows "filter (\<lambda>d. c_address d = c_address c) cs = [c]"
  using assms
proof (induction cs)
  case Nil
  then show ?case by simp
next
  case (Cons d ds)
  show ?case
  proof (cases "d = c")
    case True
    with Cons.prems have "c_address c \<notin> c_address ` set ds" by simp
    then have "\<forall>e \<in> set ds. c_address e \<noteq> c_address c" by (metis imageI)
    then have "filter (\<lambda>e. c_address e = c_address c) ds = []"
      by (simp add: filter_empty_conv)
    with True show ?thesis by simp
  next
    case False
    with Cons.prems have "c \<in> set ds" and "c_address d \<noteq> c_address c" by auto
    with Cons show ?thesis by simp
  qed
qed


section \<open>Facts about single passes\<close>

lemma in_hdrop_exists: "window_in_hdrop cs class_name \<Longrightarrow> window_exists cs class_name"
  by (auto simp: window_in_hdrop_def window_exists_def list_ex_iff)

lemma handle_window_single_pass:
  assumes "\<not> launches be class_name opts st"
  shows "handle_window be class_name opts st =
     act_on_window be class_name opts
       (st\<lparr>passes := Suc (passes st),
           trace := trace st @ (if \<not> skip opts \<and> command opts \<noteq> PNone then [GetClients] else [])\<rparr>)"
proof (cases "\<not> skip opts \<and> command opts \<noteq> PNone")
  case True
  with assms show ?thesis by (simp add: handle_window_guarded)
next
  case False
  then have "handle_window be class_name opts st =
      act_on_window be class_name opts (st\<lparr>passes := Suc (passes st)\<rparr>)"
    using handle_window_skip handle_window_no_command by blast
  with False show ?thesis by auto
qed

lemma handle_window_absent:
  assumes stable: "\<And>n. n < 2 \<Longrightarrow> clients_reply be (trace st @ replicate n GetClients) = cs"
    and absent: "\<not> window_exists cs class_name"
    and no_launch: "command opts = PNone \<or> \<not> launch_on_missing opts"
  shows "commands (emitted st (handle_window be class_name opts st)) = []"
proof -
  have r0: "clients_reply be (trace st) = cs"
    using stable [of 0] by simp
  have r1: "clients_reply be (trace st @ [GetClients]) = cs"
    using stable [of "Suc 0"] by simp
  have nl: "\<not> launches be class_name opts st"
    using no_launch by (auto simp: launches_def)
  show ?thesis
    by (simp add: handle_window_single_pass [OF nl] act_on_window_absent r0 r1 absent
        emitted_def)
qed

text \<open>The equations that evaluate a run on a concrete backend.\<close>

lemmas eval_defs = handle_window.simps act_on_window_def is_window_exists_def
  is_window_in_hdrop_def get_clients_def execute_def sleep_def window_exists_def
  window_in_hdrop_def move_window_to_active_workspace_def move_window_to_hdrop_def
  execute_json_activeworkspace_def configure_floating_window_def str_int_def str_nat.simps
  Let_def


section \<open>The launch path\<close>

text \<open>
  Claim C1. Every call of the lifecycle decision returns (the function is total: the
  retry carries \<open>skip = True\<close>, which closes the launch branch), whatever the backend
  answers and so also when the launched process never shows a window. A call adds at
  most one \<^verbatim>\<open>exec\<close> command to the trace and runs the decision at most twice: twice
  with exactly one \<^verbatim>\<open>exec <command>\<close> when the launch guard holds, once with no
  \<^verbatim>\<open>exec\<close> otherwise.
\<close>

theorem launch_at_most_once:
  "let st' = handle_window be class_name opts st; es = emitted st st' in
     trace st' = trace st @ es
     \<and> length (filter is_exec_command es) \<le> 1
     \<and> passes st < passes st' \<and> passes st' \<le> passes st + 2
     \<and> (if launches be class_name opts st
        then passes st' = passes st + 2
           \<and> filter is_exec_command es = [Execute (''exec '' @ py_str (command opts))]
        else passes st' = passes st + 1 \<and> filter is_exec_command es = [])"
proof -
  obtain es where tr: "trace (handle_window be class_name opts st)
        = trace st @ first_half be class_name opts st @ es"
    and ne: "filter is_exec_command es = []"
    using handle_window_emits by blast
  have em: "emitted st (handle_window be class_name opts st)
        = first_half be class_name opts st @ es"
    using tr by (rule emitted_append)
  show ?thesis
    by (simp add: Let_def em tr ne handle_window_passes first_half_def is_exec_command_def)
qed

text \<open>Scenario A: nothing of class \<^verbatim>\<open>kitty\<close> ever appears; one launch, one re-check, no further command.\<close>

theorem launch_at_most_once_witness:
  "let be = \<lparr>clients_reply = (\<lambda>tr. []), activeworkspace_id = (\<lambda>tr. 1)\<rparr>;
       opts = \<lparr>command = PStr ''kitty'', focus = True, floating = False, height = PNone,
               width = PNone, center = False, skip = False, launch_on_missing = True\<rparr>;
       st' = handle_window be (PStr ''kitty'') opts \<lparr>trace = [], passes = 0\<rparr>
   in trace st' = [GetClients, Execute ''exec kitty'', Sleep, GetClients] \<and> passes st' = 2"
  using launch_at_most_once [of "\<lparr>clients_reply = (\<lambda>tr. []), activeworkspace_id = (\<lambda>tr. 1)\<rparr>"
      "PStr ''kitty''"
      "\<lparr>command = PStr ''kitty'', focus = True, floating = False, height = PNone,
               width = PNone, center = False, skip = False, launch_on_missing = True\<rparr>"
      "\<lparr>trace = [], passes = 0\<rparr>"]
  by (simp add: handle_window.simps act_on_window_def is_window_exists_def get_clients_def
      execute_def sleep_def window_exists_def Let_def)


section \<open>A window in the scratchpad\<close>

text \<open>
  Claim C2, as the code has it. In a decision pass that finds a window of the class in the
  scratchpad workspace (the client list being the same for the reads before the move),
  the controller queries the active workspace and issues
  \<^verbatim>\<open>movetoworkspace <id>,class:<C>\<close>. If floating is requested it then runs the
  geometry normalizer, which reads the client list again: its toggles are one
  \<^verbatim>\<open>togglefloating address:<a>\<close> per non-floating client of the class that this
  list shows outside the scratchpad, or the single \<^verbatim>\<open>togglefloating class:<C>\<close>
  when the list shows none outside, floating or not; then the resize and the center
  commands as requested.
\<close>

theorem restore_from_scratchpad:
  assumes stable: "\<And>n. n < 3 \<Longrightarrow> clients_reply be (trace st @ replicate n GetClients) = cs"
    and ex: "window_exists cs class_name"
    and inh: "window_in_hdrop cs class_name"
  shows "let reads = (if \<not> skip opts \<and> command opts \<noteq> PNone
                      then [GetClients, GetClients, GetClients] else [GetClients, GetClients]);
             mv = ''movetoworkspace '' @ str_int (activeworkspace_id be (trace st @ reads))
                  @ '',class:'' @ py_str class_name;
             after_move = trace st @ reads @ [ExecuteJson ''activeworkspace'', Execute mv]
         in commands (emitted st (handle_window be class_name opts st)) =
              mv # (if floating opts
                    then normalizer_commands (clients_reply be after_move) class_name
                           (height opts) (width opts) (center opts)
                    else [])
            \<and> passes (handle_window be class_name opts st) = passes st + 1"
proof -
  have r0: "clients_reply be (trace st) = cs"
    using stable [of 0] by simp
  have r1: "clients_reply be (trace st @ [GetClients]) = cs"
    using stable [of "Suc 0"] by simp
  have r2: "clients_reply be (trace st @ [GetClients, GetClients]) = cs"
    using stable [of "Suc (Suc 0)"] by simp
  have nl: "\<not> launches be class_name opts st"
    by (simp add: launches_def r0 ex)
  show ?thesis
  proof (cases "\<not> skip opts \<and> command opts \<noteq> PNone")
    case True
    then have hw: "handle_window be class_name opts st =
        act_on_window be class_name opts
          (st\<lparr>passes := Suc (passes st), trace := trace st @ [GetClients]\<rparr>)"
      using nl by (simp add: handle_window_guarded)
    show ?thesis
      using True
      by (simp add: hw act_on_window_restore_trace act_on_window_passes r1 r2 ex inh
          emitted_def Let_def commands_append commands_map_Execute)
  next
    case False
    then have hw: "handle_window be class_name opts st =
        act_on_window be class_name opts (st\<lparr>passes := Suc (passes st)\<rparr>)"
      using handle_window_skip handle_window_no_command by blast
    show ?thesis
      using False
      by (auto simp add: hw act_on_window_restore_trace act_on_window_passes r0 r1 ex inh
          emitted_def Let_def commands_append commands_map_Execute)
  qed
qed

text \<open>
  Scenario C on a backend that shows the window in workspace 3 after the move: the toggle
  goes to the window's address.
\<close>

theorem restore_from_scratchpad_witness:
  "window_exists [foo_window ''special:hdrop'' False] (PStr ''foo'')
   \<and> window_in_hdrop [foo_window ''special:hdrop'' False] (PStr ''foo'')
   \<and> clients_reply moving_backend (trace start @ [GetClients, GetClients])
       = [foo_window ''special:hdrop'' False]
   \<and> commands (emitted start (handle_window moving_backend (PStr ''foo'') scenario_c_options start))
       = [''movetoworkspace 3,class:foo'', ''togglefloating address:0xa1'',
          ''resizewindowpixel exact 600 400,class:foo'', ''centerwindow class:foo'']"
proof -
  have stable: "\<And>n. n < 3 \<Longrightarrow>
      clients_reply moving_backend (trace start @ replicate n GetClients)
        = [foo_window ''special:hdrop'' False]"
    by (simp add: moving_backend_def start_def)
  have ex: "window_exists [foo_window ''special:hdrop'' False] (PStr ''foo'')"
    by (simp add: window_exists_def foo_window_def)
  have inh: "window_in_hdrop [foo_window ''special:hdrop'' False] (PStr ''foo'')"
    by (simp add: window_in_hdrop_def foo_window_def)
  show ?thesis
    using restore_from_scratchpad [of moving_backend start "[foo_window ''special:hdrop'' False]"
        "PStr ''foo''" scenario_c_options, OF stable ex inh]
    by (simp add: window_exists_def window_in_hdrop_def scenario_c_options_def
        moving_backend_def start_def foo_window_def normalizer_commands_def toggle_commands_def str_int_def str_nat.simps Let_def)
qed

text \<open>
  The sequence of Scenario C with \<^verbatim>\<open>togglefloating class:foo\<close> only for a window
  that is not floating does not hold: when the backend shows the moved window, not
  floating, the toggle is by address; when the backend still shows the window in the
  scratchpad, the class-wide toggle is issued although the window is floating.
\<close>

theorem scenario_c_counterexample:
  "commands (trace (handle_window moving_backend (PStr ''foo'') scenario_c_options start))
     = [''movetoworkspace 3,class:foo'', ''togglefloating address:0xa1'',
        ''resizewindowpixel exact 600 400,class:foo'', ''centerwindow class:foo'']
   \<and> c_floating (foo_window ''special:hdrop'' True)
   \<and> commands (trace (handle_window lagging_backend (PStr ''foo'') scenario_c_options start))
     = [''movetoworkspace 3,class:foo'', ''togglefloating class:foo'',
        ''resizewindowpixel exact 600 400,class:foo'', ''centerwindow class:foo'']"
  by (simp add: eval_defs moving_backend_def lagging_backend_def scenario_c_options_def
      start_def foo_window_def)


section \<open>A window outside the scratchpad\<close>

text \<open>
  Claim C3. In a decision pass that finds a window of the class which is not in the
  scratchpad workspace (the client list being the same for the reads of the pass),
  exactly one command is issued: \<^verbatim>\<open>focuswindow class:<C>\<close> when the focus option is
  true, \<^verbatim>\<open>movetoworkspacesilent special:hdrop,class:<C>\<close> when it is false. The pass is
  the only one of the call.
\<close>

theorem outside_scratchpad_single_command:
  assumes stable: "\<And>n. n < 3 \<Longrightarrow> clients_reply be (trace st @ replicate n GetClients) = cs"
    and ex: "window_exists cs class_name"
    and out: "\<not> window_in_hdrop cs class_name"
  shows "commands (emitted st (handle_window be class_name opts st)) =
           [if focus opts then ''focuswindow class:'' @ py_str class_name
            else ''movetoworkspacesilent special:hdrop,class:'' @ py_str class_name]
         \<and> passes (handle_window be class_name opts st) = passes st + 1"
proof -
  have r0: "clients_reply be (trace st) = cs"
    using stable [of 0] by simp
  have r1: "clients_reply be (trace st @ [GetClients]) = cs"
    using stable [of "Suc 0"] by simp
  have r2: "clients_reply be (trace st @ [GetClients, GetClients]) = cs"
    using stable [of "Suc (Suc 0)"] by simp
  have nl: "\<not> launches be class_name opts st"
    by (simp add: launches_def r0 ex)
  show ?thesis
  proof (cases "\<not> skip opts \<and> command opts \<noteq> PNone")
    case True
    then have "handle_window be class_name opts st =
        act_on_window be class_name opts
          (st\<lparr>passes := Suc (passes st), trace := trace st @ [GetClients]\<rparr>)"
      using nl by (simp add: handle_window_guarded)
    then show ?thesis
      by (simp add: act_on_window_outside r1 r2 ex out emitted_def)
  next
    case False
    then have "handle_window be class_name opts st =
        act_on_window be class_name opts (st\<lparr>passes := Suc (passes st)\<rparr>)"
      using handle_window_skip handle_window_no_command by blast
    then show ?thesis
      by (simp add: act_on_window_outside r0 r1 ex out emitted_def)
  qed
qed

text \<open>Scenario B: window \<^verbatim>\<open>foo\<close> in workspace \<^verbatim>\<open>1\<close>, no focus, not floating.\<close>

theorem outside_scratchpad_single_command_witness:
  "let foo = \<lparr>c_address = ''0xa1'', c_class = ''foo'', c_title = ''t'',
              c_workspace_name = ''1'', c_floating = False\<rparr>;
       be = \<lparr>clients_reply = (\<lambda>tr. [foo]), activeworkspace_id = (\<lambda>tr. 1)\<rparr>;
       opts = \<lparr>command = PNone, focus = False, floating = False, height = PNone,
               width = PNone, center = False, skip = False, launch_on_missing = False\<rparr>;
       st = \<lparr>trace = [], passes = 0\<rparr>
   in window_exists [foo] (PStr ''foo'') \<and> \<not> window_in_hdrop [foo] (PStr ''foo'')
      \<and> commands (emitted st (handle_window be (PStr ''foo'') opts st))
          = [''movetoworkspacesilent special:hdrop,class:foo'']"
  using outside_scratchpad_single_command [of
      "\<lparr>clients_reply = (\<lambda>tr. [\<lparr>c_address = ''0xa1'', c_class = ''foo'', c_title = ''t'',
              c_workspace_name = ''1'', c_floating = False\<rparr>]), activeworkspace_id = (\<lambda>tr. 1)\<rparr>"
      "\<lparr>trace = [], passes = 0\<rparr>"
      "[\<lparr>c_address = ''0xa1'', c_class = ''foo'', c_title = ''t'',
              c_workspace_name = ''1'', c_floating = False\<rparr>]"
      "PStr ''foo''"
      "\<lparr>command = PNone, focus = False, floating = False, height = PNone,
               width = PNone, center = False, skip = False, launch_on_missing = False\<rparr>"]
  by (simp add: window_exists_def window_in_hdrop_def Let_def)


section \<open>A class with no window and no launch path\<close>

text \<open>
  Claim C4, as the code has it. When no client has the class (the client list being the
  same for the reads of the call) and the configuration of the class has no command or
  a false \<open>launch_on_missing\<close>, the toggle and the show entry points return no error
  and issue no command. The focus entry point does not look at whether the window
  exists: for a class with no window it issues \<^verbatim>\<open>focuswindow class:<C>\<close>.
\<close>

theorem absent_window_no_launch:
  assumes stable: "\<And>n. n < 2 \<Longrightarrow> clients_reply be (trace st @ replicate n GetClients) = cs"
  shows "(split1 args = class_name # rest \<and> \<not> window_exists cs (PStr class_name)
          \<and> (dict_get (get_app_config apps class_name) ''command'' = PNone
             \<or> \<not> truthy (dict_get_default (get_app_config apps class_name)
                            ''launch_on_missing'' (PBool False)))
          \<longrightarrow> fst (run_toggle apps be args st) = None
              \<and> commands (emitted st (snd (run_toggle apps be args st))) = []
              \<and> fst (run_show apps be args st) = None
              \<and> commands (emitted st (snd (run_show apps be args st))) = [])
       \<and> (strip args \<noteq> [] \<and> \<not> window_exists cs (PStr (strip args))
          \<longrightarrow> fst (run_focus be args st) = None
              \<and> commands (emitted st (snd (run_focus be args st)))
                  = [''focuswindow class:'' @ strip args])"
proof (intro conjI impI)
  assume a: "split1 args = class_name # rest \<and> \<not> window_exists cs (PStr class_name)
          \<and> (dict_get (get_app_config apps class_name) ''command'' = PNone
             \<or> \<not> truthy (dict_get_default (get_app_config apps class_name)
                            ''launch_on_missing'' (PBool False)))"
  show "fst (run_toggle apps be args st) = None"
    using a by (simp add: run_toggle_def Let_def)
  show "fst (run_show apps be args st) = None"
    using a by (simp add: run_show_def Let_def)
  show "commands (emitted st (snd (run_toggle apps be args st))) = []"
    using a by (simp add: run_toggle_def Let_def) (rule handle_window_absent [OF stable], auto)
  show "commands (emitted st (snd (run_show apps be args st))) = []"
    using a by (simp add: run_show_def Let_def) (rule handle_window_absent [OF stable], auto)
next
  assume b: "strip args \<noteq> [] \<and> \<not> window_exists cs (PStr (strip args))"
  have r0: "clients_reply be (trace st) = cs"
    using stable [of 0] by simp
  from b have nh: "\<not> window_in_hdrop cs (PStr (strip args))"
    using in_hdrop_exists by blast
  show "fst (run_focus be args st) = None"
    using b nh by (simp add: run_focus_def is_window_in_hdrop_def get_clients_def r0 Let_def)
  show "commands (emitted st (snd (run_focus be args st)))
      = [''focuswindow class:'' @ strip args]"
    using b nh
    by (simp add: run_focus_def is_window_in_hdrop_def get_clients_def r0 Let_def execute_def
        emitted_def)
qed

text \<open>
  An unconfigured class \<^verbatim>\<open>foo\<close> on a backend with no window.
\<close>

theorem absent_window_no_launch_witness:
  "split1 ''foo --floating'' = [''foo'', ''--floating''] \<and> strip '' foo '' = ''foo''
   \<and> \<not> window_exists [] (PStr ''foo'')
   \<and> dict_get (get_app_config [] ''foo'') ''command'' = PNone
   \<and> commands (emitted start (snd (run_toggle [] empty_backend ''foo --floating'' start))) = []
   \<and> commands (emitted start (snd (run_show [] empty_backend ''foo --floating'' start))) = []
   \<and> commands (emitted start (snd (run_focus empty_backend '' foo '' start)))
       = [''focuswindow class:foo'']"
proof -
  have stable: "\<And>n. n < 2 \<Longrightarrow>
      clients_reply empty_backend (trace start @ replicate n GetClients) = []"
    by (simp add: empty_backend_def)
  have s: "split1 ''foo --floating'' = [''foo'', ''--floating'']"
    by (simp add: split1_def is_space_def)
  have t: "strip '' foo '' = ''foo''"
    by (simp add: strip_def is_space_def)
  show ?thesis
    using absent_window_no_launch [of empty_backend start "[]" "''foo --floating''" "''foo''"
        "[''--floating'']" "[]", OF stable]
      absent_window_no_launch [of empty_backend start "[]" "'' foo ''" "''foo''"
        "[''--floating'']" "[]", OF stable]
    by (simp add: s t window_exists_def dict_get_def get_app_config_def)
qed

text \<open>
  The focus entry point on a class that has no window issues a command.
\<close>

theorem focus_absent_counterexample:
  "\<not> window_exists (clients_reply empty_backend []) (PStr ''foo'')
   \<and> run_focus empty_backend ''foo'' start
       = (None, \<lparr>trace = [GetClients, Execute ''focuswindow class:foo''], passes = 0\<rparr>)"
  by (simp add: run_focus_def eval_defs empty_backend_def start_def strip_def is_space_def)


section \<open>Queries of the client list\<close>

text \<open>
  Claim C5, as the code has it. The predicates are not computed from one snapshot: each
  helper queries the client list itself and is evaluated on the reply to its own query.
  One call of the lifecycle decision, its retry included, queries the client list at
  least once and at most four times.
\<close>

theorem client_queries_per_call:
  "let es = emitted st (handle_window be class_name opts st) in
     1 \<le> client_queries es \<and> client_queries es \<le> 4
     \<and> passes (handle_window be class_name opts st) \<le> passes st + 2"
proof -
  obtain es where tr: "trace (handle_window be class_name opts st)
        = trace st @ first_half be class_name opts st @ es"
    and lo: "1 \<le> client_queries es" and hi: "client_queries es \<le> 3"
    using handle_window_emits by blast
  have em: "emitted st (handle_window be class_name opts st)
        = first_half be class_name opts st @ es"
    using tr by (rule emitted_append)
  have fh: "client_queries (first_half be class_name opts st) \<le> 1"
    by (simp add: first_half_def client_queries_def)
  show ?thesis
    using lo hi fh
    by (simp add: Let_def em client_queries_append handle_window_passes)
qed

text \<open>
  Four queries in a single pass: the launch guard, the existence test, the scratchpad
  test and the normalizer.
\<close>

theorem client_queries_per_call_witness:
  "client_queries (emitted start (handle_window lagging_backend (PStr ''foo'') launch_options start))
     = 4
   \<and> passes (handle_window lagging_backend (PStr ''foo'') launch_options start) = 1"
  using client_queries_per_call [of start lagging_backend "PStr ''foo''" launch_options]
  by (simp add: eval_defs lagging_backend_def launch_options_def start_def foo_window_def
      client_queries_def emitted_def)

text \<open>
  A single pass that queries twice and whose predicates disagree: the window exists and
  is in the scratchpad at the first query and is gone at the second, and the pass hides
  a window that the first list showed in the scratchpad.
\<close>

theorem snapshot_counterexample:
  "window_exists (clients_reply closing_backend (trace start)) (PStr ''foo'')
   \<and> window_in_hdrop (clients_reply closing_backend (trace start)) (PStr ''foo'')
   \<and> handle_window closing_backend (PStr ''foo'') plain_options start
       = \<lparr>trace = [GetClients, GetClients,
                   Execute ''movetoworkspacesilent special:hdrop,class:foo''], passes = 1\<rparr>
   \<and> client_queries
        (trace (handle_window closing_backend (PStr ''foo'') plain_options start)) = 2"
  by (simp add: eval_defs closing_backend_def plain_options_def start_def foo_window_def
      client_queries_def)


section \<open>The floating toggles of the normalizer\<close>

text \<open>
  Claim C6. In one run of the geometry normalizer, on the client list the backend
  returns to it: \<^verbatim>\<open>togglefloating address:<a>\<close> is issued exactly for the addresses
  of the clients of the class that are outside the scratchpad workspace and report
  \<open>floating = False\<close> (so never for a floating one), and the class-wide
  \<^verbatim>\<open>togglefloating class:<C>\<close> is issued exactly when no client of the class is
  outside the scratchpad workspace.
\<close>

theorem normalizer_toggle_guard:
  "let cs = clients_reply be (trace st);
       cmds = commands (emitted st (configure_floating_window be class_name h w center_flag st))
   in (\<forall>a. (''togglefloating address:'' @ a) \<in> set cmds \<longleftrightarrow>
            (\<exists>c \<in> set cs. PStr (c_class c) = class_name
                \<and> c_workspace_name c \<noteq> ''special:hdrop''
                \<and> \<not> c_floating c \<and> c_address c = a))
      \<and> ((''togglefloating class:'' @ py_str class_name) \<in> set cmds \<longleftrightarrow>
            \<not> (\<exists>c \<in> set cs. PStr (c_class c) = class_name
                  \<and> c_workspace_name c \<noteq> ''special:hdrop''))"
proof -
  let ?cs = "clients_reply be (trace st)"
  have a: "(''togglefloating address:'' @ a)
        \<in> set (normalizer_commands ?cs class_name h w center_flag) \<longleftrightarrow>
      (''togglefloating address:'' @ a) \<in> set (toggle_commands ?cs class_name)" for a
    by (simp add: set_normalizer_commands)
  have b: "(''togglefloating class:'' @ py_str class_name)
        \<in> set (normalizer_commands ?cs class_name h w center_flag) \<longleftrightarrow>
      (''togglefloating class:'' @ py_str class_name) \<in> set (toggle_commands ?cs class_name)"
    by (simp add: set_normalizer_commands)
  show ?thesis
    unfolding Let_def configure_floating_window_commands
    by (simp only: a b address_toggle_iff class_toggle_iff simp_thms)
qed

text \<open>Two windows restored to workspace 3, one of them floating, and one still in the scratchpad.\<close>

theorem normalizer_toggle_guard_witness:
  "let a1 = \<lparr>c_address = ''0xa1'', c_class = ''foo'', c_title = ''t'',
             c_workspace_name = ''3'', c_floating = False\<rparr>;
       a2 = \<lparr>c_address = ''0xa2'', c_class = ''foo'', c_title = ''t'',
             c_workspace_name = ''3'', c_floating = True\<rparr>;
       a3 = \<lparr>c_address = ''0xa3'', c_class = ''foo'', c_title = ''t'',
             c_workspace_name = ''special:hdrop'', c_floating = False\<rparr>;
       be = \<lparr>clients_reply = (\<lambda>tr. [a1, a2, a3]), activeworkspace_id = (\<lambda>tr. 3)\<rparr>;
       st = \<lparr>trace = [], passes = 0\<rparr>;
       cmds = commands (emitted st (configure_floating_window be (PStr ''foo'') PNone PNone False st))
   in cmds = [''togglefloating address:0xa1'']
      \<and> ''togglefloating address:0xa2'' \<notin> set cmds
      \<and> ''togglefloating class:foo'' \<notin> set cmds"
  using normalizer_toggle_guard [of
      "\<lparr>clients_reply = (\<lambda>tr.
          [\<lparr>c_address = ''0xa1'', c_class = ''foo'', c_title = ''t'',
             c_workspace_name = ''3'', c_floating = False\<rparr>,
           \<lparr>c_address = ''0xa2'', c_class = ''foo'', c_title = ''t'',
             c_workspace_name = ''3'', c_floating = True\<rparr>,
           \<lparr>c_address = ''0xa3'', c_class = ''foo'', c_title = ''t'',
             c_workspace_name = ''special:hdrop'', c_floating = False\<rparr>]),
        activeworkspace_id = (\<lambda>tr. 3)\<rparr>"
      "\<lparr>trace = [], passes = 0\<rparr>" "PStr ''foo''" PNone PNone False]
  by (simp add: configure_floating_window_def get_clients_def execute_def emitted_def Let_def)


section \<open>Resize and center in the normalizer\<close>

text \<open>
  Claim C7. The commands of one run of the geometry normalizer are the floating toggles,
  then the resize command if and only if both height and width are present, then the
  center command if and only if the center option is true, in this order.
\<close>

theorem normalizer_order:
  "let cmds = commands (emitted st (configure_floating_window be class_name h w center_flag st));
       resize = ''resizewindowpixel exact '' @ py_str w @ '' '' @ py_str h
                @ '',class:'' @ py_str class_name;
       centre = ''centerwindow class:'' @ py_str class_name
   in (\<exists>toggles. cmds = toggles @ (if h \<noteq> PNone \<and> w \<noteq> PNone then [resize] else [])
                            @ (if center_flag then [centre] else [])
          \<and> toggles = toggle_commands (clients_reply be (trace st)) class_name
          \<and> (\<forall>t \<in> set toggles. take 15 t = ''togglefloating ''))
      \<and> (resize \<in> set cmds \<longleftrightarrow> h \<noteq> PNone \<and> w \<noteq> PNone)
      \<and> (centre \<in> set cmds \<longleftrightarrow> center_flag)"
proof -
  let ?cs = "clients_reply be (trace st)"
  have r: "''resizewindowpixel exact '' @ py_str w @ '' '' @ py_str h @ '',class:''
        @ py_str class_name \<notin> set (toggle_commands ?cs class_name)"
    by (rule not_toggle) simp
  have c: "''centerwindow class:'' @ py_str class_name \<notin> set (toggle_commands ?cs class_name)"
    by (rule not_toggle) simp
  have order: "normalizer_commands ?cs class_name h w center_flag =
      toggle_commands ?cs class_name
      @ (if h \<noteq> PNone \<and> w \<noteq> PNone
         then [''resizewindowpixel exact '' @ py_str w @ '' '' @ py_str h
               @ '',class:'' @ py_str class_name] else [])
      @ (if center_flag then [''centerwindow class:'' @ py_str class_name] else [])"
    by (simp add: normalizer_commands_def)
  have rin: "''resizewindowpixel exact '' @ py_str w @ '' '' @ py_str h @ '',class:''
        @ py_str class_name \<in> set (normalizer_commands ?cs class_name h w center_flag)
        \<longleftrightarrow> h \<noteq> PNone \<and> w \<noteq> PNone"
    using r by (simp add: set_normalizer_commands)
  have cin: "''centerwindow class:'' @ py_str class_name
        \<in> set (normalizer_commands ?cs class_name h w center_flag) \<longleftrightarrow> center_flag"
    using c by (simp add: set_normalizer_commands)
  show ?thesis
    unfolding Let_def configure_floating_window_commands
    using order rin cin toggle_commands_prefix [of ?cs class_name] by blast
qed

text \<open>Both dimensions and centering; then a height without a width.\<close>

theorem normalizer_order_witness:
  "let a3 = \<lparr>c_address = ''0xa3'', c_class = ''foo'', c_title = ''t'',
             c_workspace_name = ''special:hdrop'', c_floating = True\<rparr>;
       be = \<lparr>clients_reply = (\<lambda>tr. [a3]), activeworkspace_id = (\<lambda>tr. 3)\<rparr>;
       st = \<lparr>trace = [], passes = 0\<rparr>
   in commands (emitted st
        (configure_floating_window be (PStr ''foo'') (PInt 400) (PInt 600) True st))
        = [''togglefloating class:foo'', ''resizewindowpixel exact 600 400,class:foo'',
           ''centerwindow class:foo'']
      \<and> commands (emitted st
        (configure_floating_window be (PStr ''foo'') (PInt 400) PNone False st))
        = [''togglefloating class:foo'']"
  using normalizer_order [of
      "\<lparr>trace = [], passes = 0\<rparr>"
      "\<lparr>clients_reply = (\<lambda>tr.
          [\<lparr>c_address = ''0xa3'', c_class = ''foo'', c_title = ''t'',
             c_workspace_name = ''special:hdrop'', c_floating = True\<rparr>]),
        activeworkspace_id = (\<lambda>tr. 3)\<rparr>"
      "PStr ''foo''" "PInt 400" "PInt 600" True]
  by (simp add: configure_floating_window_def get_clients_def execute_def emitted_def Let_def
      str_int_def str_nat.simps)


section \<open>The hide entry point\<close>

text \<open>
  Claim C8. Called with a class name, the hide entry point returns no error and queries
  the client list once. If a window of the class exists, in whatever workspace, it issues
  exactly \<^verbatim>\<open>movetoworkspacesilent special:hdrop,class:<C>\<close>; if none exists it issues
  no command.
\<close>

theorem hide_single_command:
  assumes "strip args \<noteq> []"
  shows "let out = run_hide be args st; es = emitted st (snd out) in
     fst out = None
     \<and> commands es =
         (if window_exists (clients_reply be (trace st)) (PStr (strip args))
          then [''movetoworkspacesilent special:hdrop,class:'' @ strip args] else [])
     \<and> client_queries es = 1 \<and> passes (snd out) = passes st"
  using assms
  by (simp add: run_hide_def is_window_exists_def get_clients_def move_window_to_hdrop_def
      execute_def emitted_def client_queries_def Let_def)

text \<open>A window already in the scratchpad is hidden again with one command; an unknown class gives none.\<close>

theorem hide_single_command_witness:
  "let foo = \<lparr>c_address = ''0xa1'', c_class = ''foo'', c_title = ''t'',
              c_workspace_name = ''special:hdrop'', c_floating = False\<rparr>;
       be = \<lparr>clients_reply = (\<lambda>tr. [foo]), activeworkspace_id = (\<lambda>tr. 1)\<rparr>;
       st = \<lparr>trace = [], passes = 0\<rparr>
   in strip '' foo '' \<noteq> []
      \<and> run_hide be '' foo '' st =
          (None, \<lparr>trace = [GetClients,
                    Execute ''movetoworkspacesilent special:hdrop,class:foo''], passes = 0\<rparr>)
      \<and> run_hide be ''bar'' st = (None, \<lparr>trace = [GetClients], passes = 0\<rparr>)"
  using hide_single_command [of "'' foo ''"
      "\<lparr>clients_reply = (\<lambda>tr. [\<lparr>c_address = ''0xa1'', c_class = ''foo'', c_title = ''t'',
              c_workspace_name = ''special:hdrop'', c_floating = False\<rparr>]),
        activeworkspace_id = (\<lambda>tr. 1)\<rparr>" "\<lparr>trace = [], passes = 0\<rparr>"]
  by (simp add: run_hide_def is_window_exists_def get_clients_def move_window_to_hdrop_def
      execute_def window_exists_def strip_def is_space_def Let_def)


section \<open>Errors of the entry points\<close>

text \<open>
  Claim C9. An entry point called with an empty or all-whitespace argument returns its
  error string and leaves the state as it was: no query, no command. The same holds for
  the primary entry point and for \<^verbatim>\<open>run_app\<close> when the application name is not a
  key of the configuration mapping.
\<close>

theorem entry_point_errors:
  "(list_all is_space args \<longrightarrow>
      run_hdrop apps be args st
        = (Some ''Error: app name required (defined under hdrop.apps)'', st)
      \<and> run_toggle apps be args st = (Some ''Error: CLASS name required'', st)
      \<and> run_focus be args st = (Some ''Error: CLASS name required'', st)
      \<and> run_show apps be args st = (Some ''Error: CLASS name required'', st)
      \<and> run_hide be args st = (Some ''Error: CLASS name required'', st))
   \<and> (map_of apps app_name = None \<longrightarrow>
      run_app apps be app_name st
        = (Some (''Error: app '' @ [CHR 0x27] @ app_name @ [CHR 0x27] @ '' not configured''), st))
   \<and> (strip args \<noteq> [] \<and> map_of apps (hd (split1 (strip args))) = None \<longrightarrow>
      run_hdrop apps be args st
        = (Some (''Error: app '' @ [CHR 0x27] @ hd (split1 (strip args)) @ [CHR 0x27]
                 @ '' not configured''), st))"
proof (intro conjI impI)
  assume sp: "list_all is_space args"
  show "run_hdrop apps be args st
        = (Some ''Error: app name required (defined under hdrop.apps)'', st)"
    by (simp add: run_hdrop_def strip_all_space [OF sp])
  show "run_toggle apps be args st = (Some ''Error: CLASS name required'', st)"
    by (simp add: run_toggle_def split1_all_space [OF sp])
  show "run_focus be args st = (Some ''Error: CLASS name required'', st)"
    by (simp add: run_focus_def strip_all_space [OF sp])
  show "run_show apps be args st = (Some ''Error: CLASS name required'', st)"
    by (simp add: run_show_def split1_all_space [OF sp])
  show "run_hide be args st = (Some ''Error: CLASS name required'', st)"
    by (simp add: run_hide_def strip_all_space [OF sp])
next
  assume "map_of apps app_name = None"
  then show "run_app apps be app_name st
        = (Some (''Error: app '' @ [CHR 0x27] @ app_name @ [CHR 0x27] @ '' not configured''), st)"
    by (simp add: run_app_def get_app_config_def)
next
  assume a: "strip args \<noteq> [] \<and> map_of apps (hd (split1 (strip args))) = None"
  then have ne: "args \<noteq> []" by (auto simp: strip_def)
  from a split1_strip_token have tok: "hd (split1 (strip args)) \<noteq> []" by blast
  from a ne tok show "run_hdrop apps be args st
        = (Some (''Error: app '' @ [CHR 0x27] @ hd (split1 (strip args)) @ [CHR 0x27]
                 @ '' not configured''), st)"
    by (simp add: run_hdrop_def run_app_def get_app_config_def)
qed

text \<open>A blank argument to toggle, and an unconfigured name to the primary entry point.\<close>

theorem entry_point_errors_witness:
  "let apps = [(''kitty'', [(''command'', PStr ''kitty'')])];
       be = \<lparr>clients_reply = (\<lambda>tr. []), activeworkspace_id = (\<lambda>tr. 1)\<rparr>;
       st = \<lparr>trace = [], passes = 0\<rparr>
   in list_all is_space ''  '' \<and> map_of apps ''foo'' = None \<and> strip '' foo x'' \<noteq> []
      \<and> run_toggle apps be ''  '' st = (Some ''Error: CLASS name required'', st)
      \<and> run_hdrop apps be '' foo x'' st
          = (Some (''Error: app '' @ [CHR 0x27] @ ''foo'' @ [CHR 0x27] @ '' not configured''), st)"
  using entry_point_errors [of "''  ''" "[(''kitty'', [(''command'', PStr ''kitty'')])]"
      "\<lparr>clients_reply = (\<lambda>tr. []), activeworkspace_id = (\<lambda>tr. 1)\<rparr>"
      "\<lparr>trace = [], passes = 0\<rparr>" "''foo''"]
    entry_point_errors [of "'' foo x''" "[(''kitty'', [(''command'', PStr ''kitty'')])]"
      "\<lparr>clients_reply = (\<lambda>tr. []), activeworkspace_id = (\<lambda>tr. 1)\<rparr>"
      "\<lparr>trace = [], passes = 0\<rparr>" "''foo''"]
  by (simp add: is_space_def strip_def split1_def Let_def)


section \<open>The input-method switcher\<close>

text \<open>
  Claim C10. On an active-window event whose window is in the client list (addresses
  being unique), the switcher queries the client list and then issues the enable command
  \<^verbatim>\<open>execr fcitx5-remote -o\<close> if the window matches an active pattern, followed by
  the disable command \<^verbatim>\<open>execr fcitx5-remote -c\<close> if it matches an inactive
  pattern. So a window matching both gets both commands, enable first, and a window
  matching neither gets no command.
\<close>

theorem switcher_order:
  assumes "c \<in> set (clients_reply be (trace st))"
    and "c_address c = ''0x'' @ addr"
    and "distinct (map c_address (clients_reply be (trace st)))"
  shows "emitted st (event_activewindowv2 re_search cfg be addr st) =
           GetClients #
           (if should_enable re_search cfg c then [Execute ''execr fcitx5-remote -o''] else [])
           @ (if should_disable re_search cfg c then [Execute ''execr fcitx5-remote -c''] else [])"
proof -
  have "filter (\<lambda>d. c_address d = ''0x'' @ addr) (clients_reply be (trace st)) = [c]"
    using filter_unique_address [OF assms(3) assms(1)] assms(2) by simp
  then have "trace (event_activewindowv2 re_search cfg be addr st) =
      trace st @ GetClients # switch_commands re_search cfg c"
    unfolding event_activewindowv2_def Let_def get_clients_def
    by (simp add: switch_clients_trace)
  then show ?thesis
    by (simp add: emitted_def switch_commands_def)
qed

text \<open>
  A window of class \<^verbatim>\<open>kitty\<close> titled \<^verbatim>\<open>vim\<close>, active by class and inactive by
  title, with an engine that matches literally and rejects the pattern \<^verbatim>\<open>[\<close>; and
  the same window under a configuration with no pattern.
\<close>

theorem switcher_order_witness:
  "let w = \<lparr>c_address = ''0xab'', c_class = ''kitty'', c_title = ''vim'',
            c_workspace_name = ''1'', c_floating = False\<rparr>;
       be = \<lparr>clients_reply = (\<lambda>tr. [w]), activeworkspace_id = (\<lambda>tr. 1)\<rparr>;
       re_search = (\<lambda>p v. if p = ''['' then None else Some (p = v));
       cfg = \<lparr>active_classes = [PStr ''kitty''], active_titles = [],
              inactive_classes = [], inactive_titles = [PStr ''['', PStr ''vim'']\<rparr>;
       none = \<lparr>active_classes = [], active_titles = [],
               inactive_classes = [], inactive_titles = []\<rparr>;
       st = \<lparr>trace = [], passes = 0\<rparr>
   in w \<in> set [w] \<and> c_address w = ''0x'' @ ''ab'' \<and> distinct (map c_address [w])
      \<and> emitted st (event_activewindowv2 re_search cfg be ''ab'' st)
          = [GetClients, Execute ''execr fcitx5-remote -o'', Execute ''execr fcitx5-remote -c'']
      \<and> emitted st (event_activewindowv2 re_search none be ''ab'' st) = [GetClients]"
  using switcher_order [of
      "\<lparr>c_address = ''0xab'', c_class = ''kitty'', c_title = ''vim'',
            c_workspace_name = ''1'', c_floating = False\<rparr>"
      "\<lparr>clients_reply = (\<lambda>tr. [\<lparr>c_address = ''0xab'', c_class = ''kitty'', c_title = ''vim'',
            c_workspace_name = ''1'', c_floating = False\<rparr>]), activeworkspace_id = (\<lambda>tr. 1)\<rparr>"
      "\<lparr>trace = [], passes = 0\<rparr>" "''ab''"
      "\<lambda>p v. if p = ''['' then None else Some (p = v)"
      "\<lparr>active_classes = [PStr ''kitty''], active_titles = [],
              inactive_classes = [], inactive_titles = [PStr ''['', PStr ''vim'']\<rparr>"]
    switcher_order [of
      "\<lparr>c_address = ''0xab'', c_class = ''kitty'', c_title = ''vim'',
            c_workspace_name = ''1'', c_floating = False\<rparr>"
      "\<lparr>clients_reply = (\<lambda>tr. [\<lparr>c_address = ''0xab'', c_class = ''kitty'', c_title = ''vim'',
            c_workspace_name = ''1'', c_floating = False\<rparr>]), activeworkspace_id = (\<lambda>tr. 1)\<rparr>"
      "\<lparr>trace = [], passes = 0\<rparr>" "''ab''"
      "\<lambda>p v. if p = ''['' then None else Some (p = v)"
      "\<lparr>active_classes = [], active_titles = [],
               inactive_classes = [], inactive_titles = []\<rparr>"]
  by (simp add: should_enable_def should_disable_def Let_def)

end
